theory Spec2Isabelle
  imports Main "HOL-Library.List_Lexorder"
begin

section \<open>Text, faults and the toolkit as the dialogs see it\<close>

text \<open>
  A Python \<open>str\<close> is a sequence of Unicode code points: \<open>len\<close> counts code points and
  \<open>sorted\<close> compares them lexicographically by ordinal. It is modelled as a list of
  natural numbers (the code points); the order on lists is the lexicographic one.
  \<open>str ''abc''\<close> is the text of an ASCII literal.
\<close>

type_synonym pystr = "nat list"

definition str :: "string \<Rightarrow> pystr" where
  "str s = map of_char s"

text \<open>
  A call into a collaborator either returns a value or raises; \<open>Raises e\<close> carries
  \<open>str(e)\<close>, the description of the exception.
\<close>

datatype 'a outcome = Raises pystr | Returns 'a

text \<open>Callbacks handed to \<open>self.after(ms, ...)\<close>, to be run later by the UI loop.\<close>

datatype callback =
    Show_test_result bool pystr
  | Restore_copy_btn pystr
  | Restore_test_btn
  | Display_passwords

text \<open>
  What the rows and the dialog do to the world outside themselves: the clipboard, the
  prompts opened by \<open>show_message(title, message, type)\<close>, the callbacks scheduled with
  \<open>after\<close>, the files written by the export, the driver methods invoked, the settings
  file, the lines printed, the calls of \<open>ctk.set_appearance_mode\<close> and the calls of the
  \<open>on_save\<close> callback. Lists grow at the end.
\<close>

text \<open>
  The Python values \<open>json.load\<close> returns: \<open>None\<close>, booleans, integers, strings, lists,
  and dictionaries (their items in order, the keys distinct strings). JSON numbers with
  a fraction are not represented.
\<close>

datatype jvalue =
    JNull
  | JBool bool
  | JInt int
  | JStr pystr
  | JList "jvalue list"
  | JObj "(pystr \<times> jvalue) list"

text \<open>
  The settings dictionary in memory. Its keys are hashable values: the ones of the
  defaults are strings, and \<open>dict.update\<close> may store \<open>None\<close>, booleans and integers as
  keys too. The items are kept in insertion order.
\<close>

datatype pykey = KNone | KBool bool | KInt int | KStr pystr

type_synonym pydict = "(pykey \<times> jvalue) list"

text \<open>
  The file \<open>CONFIG_PATH / "settings.json"\<close>, seen through what reading it does:
  it does not exist, or opening it or \<open>json.load\<close> raises (an unreadable file, a text
  that is not JSON), or \<open>json.load\<close> returns a value.
\<close>

datatype config_file = Absent | Unloadable pystr | Holds jvalue

text \<open>
  The ways \<open>dict.update(other)\<close> raises when \<open>other\<close> is not a dictionary: \<open>other\<close> is not
  iterable; element \<open>i\<close> is not a sequence; element \<open>i\<close> has a length other than 2; the
  first component of element \<open>i\<close> is a list or a dictionary and cannot be a key.
\<close>

datatype update_fault =
    Not_iterable jvalue
  | Not_a_sequence nat
  | Wrong_length nat nat
  | Unhashable_key nat jvalue

text \<open>
  A line written by \<open>print\<close>. \<open>Load_fault_line f\<close> is the line
  \<open>[Settings] Error loading config: \<close> followed by the interpreter's text for the fault
  \<open>f\<close> of \<open>dict.update\<close>.
\<close>

datatype printed_line = Line pystr | Load_fault_line update_fault

record ui =
  clipboard :: pystr
  shown :: "(pystr \<times> pystr \<times> pystr) list"
  scheduled :: "(nat \<times> callback) list"
  files :: "pystr \<rightharpoonup> pystr"
  driver_calls :: "pystr list"
  settings_json :: config_file
  printed :: "printed_line list"
  appearance_mode :: "pystr list"
  on_save_calls :: "pydict list"

definition show_message :: "pystr \<Rightarrow> pystr \<Rightarrow> pystr \<Rightarrow> ui \<Rightarrow> ui" where
  "show_message title message type u = u\<lparr>shown := shown u @ [(title, message, type)]\<rparr>"

definition after :: "nat \<Rightarrow> callback \<Rightarrow> ui \<Rightarrow> ui" where
  "after ms cb u = u\<lparr>scheduled := scheduled u @ [(ms, cb)]\<rparr>"

text \<open>
  The faults the toolkit and the operating system may raise during one action:
  \<open>None\<close> means the call returns normally. \<open>asksaveasfilename\<close> is the path the user
  chose in the file dialog (the empty text when the dialog is cancelled); \<open>open_w\<close> is
  the fault of opening that path for writing; \<open>save_fault\<close> is the fault of creating the
  configuration directory or opening the settings file for writing.
\<close>

record world =
  clipboard_clear :: "pystr option"
  clipboard_append :: "pystr option"
  sleep :: "pystr option"
  asksaveasfilename :: "pystr outcome"
  open_w :: "pystr option"
  save_fault :: "pystr option"

section \<open>The driver collaborator\<close>

text \<open>
  The driver is probed with \<open>hasattr\<close>: each capability may be absent (\<open>None\<close>). A
  dictionary is an association list in insertion order whose keys are distinct.
\<close>

type_synonym pwdict = "(pystr \<times> pystr option) list"

record connection =
  ssid :: pystr

record driver =
  get_all_saved_passwords :: "pwdict outcome option"
  get_saved_profiles :: "pystr list outcome option"
  connect :: "(pystr \<Rightarrow> bool outcome) option"
  get_current_connection :: "connection option outcome option"

section \<open>PasswordRow\<close>

datatype btn_state = Normal | Disabled

record PasswordRow =
  profile_name :: pystr
  password :: "pystr option"
  password_visible :: bool
  row_driver :: "driver option"
  password_label :: pystr
  toggle_btn :: pystr
  copy_btn :: pystr
  test_btn :: pystr
  test_btn_state :: btn_state

definition bullet :: nat where "bullet = 0x2022"
definition eye_icon :: pystr where "eye_icon = [0x1F441]"
definition lock_icon :: pystr where "lock_icon = [0x1F512]"
definition clipboard_icon :: pystr where "clipboard_icon = [0x1F4CB]"
definition check_mark :: pystr where "check_mark = [0x2713]"
definition link_icon :: pystr where "link_icon = [0x1F517]"
definition hourglass :: pystr where "hourglass = [0x23F3]"
definition ok_icon :: pystr where "ok_icon = [0x2705]"
definition warn_icon :: pystr where "warn_icon = [0x26A0, 0xFE0F]"
definition cross_icon :: pystr where "cross_icon = [0x274C]"

definition no_password_text :: pystr where
  "no_password_text = str ''No password / Open network''"

definition get_password_display :: "PasswordRow \<Rightarrow> pystr" where
  "get_password_display r =
     (case password r of
        None \<Rightarrow> no_password_text
      | Some p \<Rightarrow>
          if password_visible r then p
          else replicate (min (length p) 12) bullet)"

text \<open>\<open>__init__\<close> followed by \<open>_create_ui\<close>: the row as it is first drawn.\<close>

definition PasswordRow_init :: "pystr \<Rightarrow> pystr option \<Rightarrow> driver option \<Rightarrow> PasswordRow" where
  "PasswordRow_init name pw drv =
     (let r = \<lparr>profile_name = name, password = pw, password_visible = False,
                row_driver = drv, password_label = [], toggle_btn = eye_icon,
                copy_btn = clipboard_icon, test_btn = link_icon,
                test_btn_state = Normal\<rparr>
      in r\<lparr>password_label := get_password_display r\<rparr>)"

definition toggle_password :: "PasswordRow \<Rightarrow> PasswordRow" where
  "toggle_password r =
     (let r1 = r\<lparr>password_visible := \<not> password_visible r\<rparr>;
          r2 = r1\<lparr>password_label := get_password_display r1\<rparr>
      in if password_visible r2 then r2\<lparr>toggle_btn := lock_icon\<rparr>
         else r2\<lparr>toggle_btn := eye_icon\<rparr>)"

text \<open>
  \<open>_copy_password\<close>. The guard \<open>if self._password:\<close> is Python truthiness of an
  optional string: false for \<open>None\<close> and for the empty string. \<open>clipboard_clear\<close>
  empties the clipboard and \<open>clipboard_append\<close> appends to it; either may raise.
\<close>

definition copy_password :: "world \<Rightarrow> PasswordRow \<times> ui \<Rightarrow> PasswordRow \<times> ui" where
  "copy_password w = (\<lambda>(r, u).
     case password r of
       None \<Rightarrow> (r, show_message (str ''Info'') (str ''No password to copy'') (str ''info'') u)
     | Some p \<Rightarrow>
         if p \<noteq> [] then
           (case clipboard_clear w of
              Some e \<Rightarrow>
                (r, show_message (str ''Error'')
                      (str ''Could not copy to clipboard: '' @ e) (str ''error'') u)
            | None \<Rightarrow>
                let u1 = u\<lparr>clipboard := []\<rparr> in
                (case clipboard_append w of
                   Some e \<Rightarrow>
                     (r, show_message (str ''Error'')
                           (str ''Could not copy to clipboard: '' @ e) (str ''error'') u1)
                 | None \<Rightarrow>
                     let u2 = u1\<lparr>clipboard := clipboard u1 @ p\<rparr>;
                         original_text = copy_btn r
                     in (r\<lparr>copy_btn := check_mark\<rparr>,
                         after 1000 (Restore_copy_btn original_text) u2)))
         else (r, show_message (str ''Info'') (str ''No password to copy'') (str ''info'') u))"

definition called :: "string \<Rightarrow> ui \<Rightarrow> ui" where
  "called name u = u\<lparr>driver_calls := driver_calls u @ [str name]\<rparr>"

definition msg_verified :: "pystr \<Rightarrow> pystr" where
  "msg_verified name = ok_icon @ str '' Successfully connected to '' @ [39] @ name @ [39]"

definition msg_unverified :: pystr where
  "msg_unverified = warn_icon @ str '' Connection initiated but not verified''"

definition msg_sent :: "pystr \<Rightarrow> pystr" where
  "msg_sent name = ok_icon @ str '' Connection command sent to '' @ [39] @ name @ [39]"

definition msg_could_not :: "pystr \<Rightarrow> pystr" where
  "msg_could_not name = cross_icon @ str '' Could not connect to '' @ [39] @ name @ [39]"

definition msg_no_driver :: pystr where
  "msg_no_driver = cross_icon @ str '' Driver not available for connection test''"

definition msg_error :: "pystr \<Rightarrow> pystr" where
  "msg_error e = cross_icon @ str '' Error: '' @ e"

text \<open>
  The worker \<open>do_test\<close> up to its last line: the values of \<open>success\<close> and \<open>message\<close>
  when the \<open>try\<close> statement is left. \<open>success\<close> is assigned once, by the result of
  \<open>connect\<close>; the handler assigns \<open>message\<close> only.
\<close>

definition do_test :: "world \<Rightarrow> PasswordRow \<Rightarrow> ui \<Rightarrow> bool \<times> pystr \<times> ui" where
  "do_test w r u =
     (case row_driver r of
        None \<Rightarrow> (False, msg_no_driver, u)
      | Some d \<Rightarrow>
          (case connect d of
             None \<Rightarrow> (False, msg_no_driver, u)
           | Some conn \<Rightarrow>
               let u1 = called ''connect'' u in
               (case conn (profile_name r) of
                  Raises e \<Rightarrow> (False, msg_error e, u1)
                | Returns success \<Rightarrow>
                    if success then
                      (case sleep w of
                         Some e \<Rightarrow> (success, msg_error e, u1)
                       | None \<Rightarrow>
                           (case get_current_connection d of
                              None \<Rightarrow> (success, msg_sent (profile_name r), u1)
                            | Some q \<Rightarrow>
                                let u2 = called ''get_current_connection'' u1 in
                                (case q of
                                   Raises e \<Rightarrow> (success, msg_error e, u2)
                                 | Returns current \<Rightarrow>
                                     (case current of
                                        None \<Rightarrow> (success, msg_unverified, u2)
                                      | Some c \<Rightarrow>
                                          if ssid c = profile_name r
                                          then (success, msg_verified (profile_name r), u2)
                                          else (success, msg_unverified, u2)))))
                    else (success, msg_could_not (profile_name r), u1))))"

text \<open>
  \<open>_test_connection\<close>: the button shows the hourglass and is disabled, then the worker
  runs \<open>do_test\<close> and hands \<open>_show_test_result(success, message)\<close> to the UI loop.
\<close>

definition test_connection :: "world \<Rightarrow> PasswordRow \<times> ui \<Rightarrow> PasswordRow \<times> ui" where
  "test_connection w = (\<lambda>(r, u).
     let r1 = r\<lparr>test_btn := hourglass, test_btn_state := Disabled\<rparr>;
         (success, message, u1) = do_test w r1 u
     in (r1, after 0 (Show_test_result success message) u1))"

definition show_test_result :: "bool \<Rightarrow> pystr \<Rightarrow> PasswordRow \<times> ui \<Rightarrow> PasswordRow \<times> ui" where
  "show_test_result success message = (\<lambda>(r, u).
     let r1 = r\<lparr>test_btn := (if success then ok_icon else cross_icon),
                 test_btn_state := Normal\<rparr>;
         msg_type = (if success then str ''info'' else str ''warning'');
         u1 = show_message (str ''Connection Test'') message msg_type u
     in (r1, after 2000 Restore_test_btn u1))"

text \<open>
  The test status of a row is what its test button shows: the link icon on an enabled
  button is Idle, the hourglass on a disabled one is Testing, the two result icons are
  Succeeded and Failed.
\<close>

datatype test_status = Idle | Testing | Succeeded | Failed

definition status_of :: "PasswordRow \<Rightarrow> test_status option" where
  "status_of r =
     (if test_btn r = link_icon \<and> test_btn_state r = Normal then Some Idle
      else if test_btn r = hourglass \<and> test_btn_state r = Disabled then Some Testing
      else if test_btn r = ok_icon \<and> test_btn_state r = Normal then Some Succeeded
      else if test_btn r = cross_icon \<and> test_btn_state r = Normal then Some Failed
      else None)"

section \<open>SavedPasswordsDialog\<close>

datatype widget = Label pystr | Row PasswordRow

record SavedPasswordsDialog =
  dlg_driver :: "driver option"
  passwords :: pwdict
  scroll_frame :: "widget list"

definition loading_text :: pystr where
  "loading_text = str ''Loading saved networks...''"

definition empty_text :: pystr where
  "empty_text = str ''No saved WiFi networks found''"

text \<open>\<open>d[k] = v\<close> on a dictionary: an existing key keeps its place, a new one goes last.\<close>

fun dict_set :: "'k \<Rightarrow> 'v \<Rightarrow> ('k \<times> 'v) list \<Rightarrow> ('k \<times> 'v) list" where
  "dict_set k v [] = [(k, v)]"
| "dict_set k v ((k', v') # d) =
     (if k = k' then (k, v) # d else (k', v') # dict_set k v d)"

text \<open>The comprehension \<open>{p: None for p in profiles}\<close>.\<close>

definition dict_of_profiles :: "pystr list \<Rightarrow> pwdict" where
  "dict_of_profiles profiles = foldl (\<lambda>d p. dict_set p None d) [] profiles"

text \<open>
  The worker \<open>load\<close>. It has no handler: when a driver call raises, the exception leaves
  the thread's target, the thread ends, and neither the assignment to \<open>self._passwords\<close>
  nor the call of \<open>self.after\<close> is reached. The first component of the result is that
  uncaught fault, if any.
\<close>

definition load :: "SavedPasswordsDialog \<times> ui \<Rightarrow> pystr option \<times> SavedPasswordsDialog \<times> ui" where
  "load = (\<lambda>(d, u).
     case dlg_driver d of
       None \<Rightarrow> (None, d\<lparr>passwords := []\<rparr>, after 0 Display_passwords u)
     | Some drv \<Rightarrow>
         (case get_all_saved_passwords drv of
            Some res \<Rightarrow>
              let u1 = called ''get_all_saved_passwords'' u in
              (case res of
                 Raises e \<Rightarrow> (Some e, d, u1)
               | Returns m \<Rightarrow> (None, d\<lparr>passwords := m\<rparr>, after 0 Display_passwords u1))
          | None \<Rightarrow>
              (case get_saved_profiles drv of
                 Some res \<Rightarrow>
                   let u1 = called ''get_saved_profiles'' u in
                   (case res of
                      Raises e \<Rightarrow> (Some e, d, u1)
                    | Returns profiles \<Rightarrow>
                        (None, d\<lparr>passwords := dict_of_profiles profiles\<rparr>,
                         after 0 Display_passwords u1))
               | None \<Rightarrow> (None, d\<lparr>passwords := []\<rparr>, after 0 Display_passwords u))))"

text \<open>
  \<open>_load_passwords\<close>: the children of the scroll frame are replaced by the loading
  label, then the worker runs.
\<close>

definition load_passwords :: "SavedPasswordsDialog \<times> ui \<Rightarrow> SavedPasswordsDialog \<times> ui" where
  "load_passwords = (\<lambda>(d, u). snd (load (d\<lparr>scroll_frame := [Label loading_text]\<rparr>, u)))"

text \<open>
  \<open>_display_passwords\<close>. Every name comes from the keys of the dictionary, so the lookup
  \<open>self._passwords[profile]\<close> finds it.
\<close>

definition display_passwords :: "SavedPasswordsDialog \<Rightarrow> SavedPasswordsDialog" where
  "display_passwords d =
     (if passwords d = [] then d\<lparr>scroll_frame := [Label empty_text]\<rparr>
      else
        let sorted_profiles = sort (map fst (passwords d)) in
        d\<lparr>scroll_frame :=
            List.map_filter
              (\<lambda>profile. map_option (\<lambda>pw. Row (PasswordRow_init profile pw (dlg_driver d)))
                            (map_of (passwords d) profile))
              sorted_profiles\<rparr>)"

text \<open>The UI loop runs the callbacks the dialog scheduled, oldest first.\<close>

fun run_callback :: "callback \<Rightarrow> SavedPasswordsDialog \<Rightarrow> SavedPasswordsDialog" where
  "run_callback Display_passwords d = display_passwords d"
| "run_callback _ d = d"

definition run_scheduled :: "SavedPasswordsDialog \<times> ui \<Rightarrow> SavedPasswordsDialog \<times> ui" where
  "run_scheduled = (\<lambda>(d, u).
     (foldl (\<lambda>d' (ms, cb). run_callback cb d') d (scheduled u), u\<lparr>scheduled := []\<rparr>))"

text \<open>
  \<open>_export_passwords\<close>. \<open>password or '(no password)'\<close> takes the literal for \<open>None\<close> and
  for the empty string. The items are sorted as pairs; the names of a dictionary are
  distinct, so the names alone decide the order.
\<close>

definition export_block :: "pystr \<times> pystr option \<Rightarrow> pystr" where
  "export_block = (\<lambda>(profile, password).
     str ''Network: '' @ profile @ [10]
     @ str ''Password: ''
     @ (case password of
          None \<Rightarrow> str ''(no password)''
        | Some p \<Rightarrow> if p \<noteq> [] then p else str ''(no password)'')
     @ [10]
     @ replicate 30 45 @ [10])"

definition export_text :: "pwdict \<Rightarrow> pystr" where
  "export_text ps =
     str ''WiFi Tester Pro - Saved Passwords Export'' @ [10]
     @ replicate 50 61 @ [10, 10]
     @ concat (map export_block (sort_key fst ps))"

definition export_passwords ::
  "world \<Rightarrow> SavedPasswordsDialog \<times> ui \<Rightarrow> SavedPasswordsDialog \<times> ui" where
  "export_passwords w = (\<lambda>(d, u).
     if passwords d = [] then
       (d, show_message (str ''Info'') (str ''No passwords to export'') (str ''info'') u)
     else
       (case asksaveasfilename w of
          Raises e \<Rightarrow>
            (d, show_message (str ''Error'') (str ''Export failed: '' @ e) (str ''error'') u)
        | Returns filepath \<Rightarrow>
            if filepath \<noteq> [] then
              (case open_w w of
                 Some e \<Rightarrow>
                   (d, show_message (str ''Error'') (str ''Export failed: '' @ e)
                         (str ''error'') u)
               | None \<Rightarrow>
                   let u1 = u\<lparr>files := (files u)(filepath \<mapsto> export_text (passwords d))\<rparr>
                   in (d, show_message (str ''Success'')
                            (str ''Passwords exported to:'' @ [10] @ filepath)
                            (str ''info'') u1))
            else (d, u)))"

section \<open>SettingsDialog\<close>

record SettingsDialog =
  settings :: pydict
  timeout_var :: pystr
  hidden_var :: bool
  refresh_var :: bool
  interval_var :: pystr
  iface_var :: pystr
  theme_var :: pystr
  log_var :: pystr
  sound_var :: bool
  on_save :: bool
  destroyed :: bool

definition default_settings :: pydict where
  "default_settings =
     [(KStr (str ''scan_timeout''), JInt 15),
      (KStr (str ''auto_refresh''), JBool True),
      (KStr (str ''refresh_interval''), JInt 30),
      (KStr (str ''show_hidden_networks''), JBool True),
      (KStr (str ''sound_enabled''), JBool False),
      (KStr (str ''log_level''), JStr (str ''INFO'')),
      (KStr (str ''theme''), JStr (str ''dark'')),
      (KStr (str ''default_interface''), JStr [])]"

text \<open>
  Two keys are the same key of a dictionary when they are equal in Python: \<open>True\<close> and
  \<open>1\<close>, and \<open>False\<close> and \<open>0\<close>, are.
\<close>

fun key_norm :: "pykey \<Rightarrow> pykey" where
  "key_norm (KBool b) = KInt (if b then 1 else 0)"
| "key_norm k = k"

definition same_key :: "pykey \<Rightarrow> pykey \<Rightarrow> bool" where
  "same_key a b = (key_norm a = key_norm b)"

text \<open>
  \<open>d[k] = v\<close> and \<open>d.get(k)\<close>. Storing under a key that is already present replaces the
  value and keeps the key object and its place.
\<close>

fun setitem :: "pykey \<Rightarrow> jvalue \<Rightarrow> pydict \<Rightarrow> pydict" where
  "setitem k v [] = [(k, v)]"
| "setitem k v ((k', v') # d) =
     (if same_key k k' then (k', v) # d else (k', v') # setitem k v d)"







text \<open>
  What \<open>json.dump\<close> writes for a dictionary, as \<open>json.load\<close> reads it back: an object
  whose keys are the texts of the keys (\<open>null\<close>, \<open>true\<close>, \<open>false\<close>, the decimal numeral,
  the string itself); when two keys have the same text the later value is the one read.
\<close>

fun dec :: "nat \<Rightarrow> pystr" where
  "dec n = (if n < 10 then [48 + n] else dec (n div 10) @ [48 + n mod 10])"

declare dec.simps [simp del]

fun key_text :: "pykey \<Rightarrow> pystr" where
  "key_text KNone = str ''null''"
| "key_text (KBool b) = (if b then str ''true'' else str ''false'')"
| "key_text (KInt n) = (if n < 0 then 45 # dec (nat (- n)) else dec (nat n))"
| "key_text (KStr s) = s"

definition json_dump :: "pydict \<Rightarrow> jvalue" where
  "json_dump d = JObj (foldl (\<lambda>acc (k, v). dict_set (key_text k) v acc) [] d)"

text \<open>\<open>_save_settings\<close>: the whole file is overwritten with the current dictionary.\<close>

definition save_settings :: "world \<Rightarrow> SettingsDialog \<times> ui \<Rightarrow> SettingsDialog \<times> ui" where
  "save_settings w = (\<lambda>(d, u).
     case save_fault w of
       Some e \<Rightarrow>
         (d, u\<lparr>printed := printed u @ [Line (str ''[Settings] Error saving config: '' @ e)]\<rparr>)
     | None \<Rightarrow>
         (d, u\<lparr>settings_json := Holds (json_dump (settings d)),
               printed := printed u @ [Line (str ''[Settings] Configuration saved'')]\<rparr>))"

text \<open>
  \<open>_apply_settings\<close>. The parameter \<open>int_of\<close> is Python's built-in \<open>int\<close> on a string:
  \<open>Inr n\<close> when the text converts to \<open>n\<close>, \<open>Inl e\<close> when it raises \<open>ValueError\<close> with
  description \<open>e\<close>, as it does for every text that is not a number. The assignments
  before a failing conversion have already changed the dictionary in memory.
\<close>

definition apply_settings ::
  "(pystr \<Rightarrow> pystr + int) \<Rightarrow> world \<Rightarrow> SettingsDialog \<times> ui \<Rightarrow> SettingsDialog \<times> ui" where
  "apply_settings int_of w = (\<lambda>(d, u).
     case int_of (timeout_var d) of
       Inl e \<Rightarrow> (d, show_message (str ''Error'') (str ''Invalid value: '' @ e) (str ''error'') u)
     | Inr t \<Rightarrow>
         let d1 = d\<lparr>settings := setitem (KStr (str ''scan_timeout'')) (JInt t) (settings d)\<rparr>;
             d2 = d1\<lparr>settings :=
                      setitem (KStr (str ''show_hidden_networks'')) (JBool (hidden_var d1))
                        (settings d1)\<rparr>;
             d3 = d2\<lparr>settings :=
                      setitem (KStr (str ''auto_refresh'')) (JBool (refresh_var d2)) (settings d2)\<rparr>
         in
         (case int_of (interval_var d3) of
            Inl e \<Rightarrow>
              (d3, show_message (str ''Error'') (str ''Invalid value: '' @ e) (str ''error'') u)
          | Inr i \<Rightarrow>
              let d4 = d3\<lparr>settings :=
                           setitem (KStr (str ''refresh_interval'')) (JInt i) (settings d3)\<rparr>;
                  d5 = d4\<lparr>settings :=
                           setitem (KStr (str ''default_interface'')) (JStr (iface_var d4))
                             (settings d4)\<rparr>;
                  d6 = d5\<lparr>settings :=
                           setitem (KStr (str ''theme'')) (JStr (theme_var d5)) (settings d5)\<rparr>;
                  d7 = d6\<lparr>settings :=
                           setitem (KStr (str ''log_level'')) (JStr (log_var d6)) (settings d6)\<rparr>;
                  d8 = d7\<lparr>settings :=
                           setitem (KStr (str ''sound_enabled'')) (JBool (sound_var d7))
                             (settings d7)\<rparr>;
                  (d9, u1) = save_settings w (d8, u);
                  u2 = (if theme_var d9 \<noteq> str ''system''
                        then u1\<lparr>appearance_mode := appearance_mode u1 @ [theme_var d9]\<rparr>
                        else u1);
                  u3 = (if on_save d9
                        then u2\<lparr>on_save_calls := on_save_calls u2 @ [settings d9]\<rparr>
                        else u2);
                  u4 = show_message (str ''Settings'') (str ''Settings saved successfully!'')
                         (str ''info'') u3
              in (d9\<lparr>destroyed := True\<rparr>, u4)))"

section \<open>Observations and example inputs\<close>

text \<open>The rows among the children of the scroll frame, in display order.\<close>

definition rows_of :: "widget list \<Rightarrow> PasswordRow list" where
  "rows_of ws = concat (map (\<lambda>w. case w of Row r \<Rightarrow> [r] | Label _ \<Rightarrow> []) ws)"

text \<open>\<open>needle in hay\<close> for two texts.\<close>

definition mentions :: "pystr \<Rightarrow> pystr \<Rightarrow> bool" where
  "mentions needle hay =
     list_ex (\<lambda>i. take (length needle) (drop i hay) = needle) [0..<Suc (length hay)]"

text \<open>
  A world in which nothing faults, an untouched environment, a driver without any
  capability, a dialog that has not loaded yet, and a settings form with the default
  selections and the two integer fields as typed.
\<close>

definition quiet_world :: world where
  "quiet_world = \<lparr>clipboard_clear = None, clipboard_append = None, sleep = None,
                   asksaveasfilename = Returns [], open_w = None, save_fault = None\<rparr>"

definition blank_ui :: ui where
  "blank_ui = \<lparr>clipboard = [], shown = [], scheduled = [], files = Map.empty,
                driver_calls = [], settings_json = Absent, printed = [],
                appearance_mode = [], on_save_calls = []\<rparr>"

definition bare_driver :: driver where
  "bare_driver = \<lparr>get_all_saved_passwords = None, get_saved_profiles = None,
                   connect = None, get_current_connection = None\<rparr>"

definition fresh_dialog :: "driver option \<Rightarrow> SavedPasswordsDialog" where
  "fresh_dialog drv = \<lparr>dlg_driver = drv, passwords = [], scroll_frame = []\<rparr>"

text \<open>
  The answers of the built-in \<open>int\<close> on the three texts typed into the integer fields
  of the examples: \<open>15\<close> and \<open>30\<close> convert, \<open>abc\<close> raises \<open>ValueError\<close> with the
  description \<open>invalid literal for int() with base 10: 'abc'\<close>. It stands for \<open>int\<close> on
  these three texts only; the empty fault it gives to any other text is a placeholder.
\<close>

definition int_on_examples :: "pystr \<Rightarrow> pystr + int" where
  "int_on_examples s =
     (if s = str ''15'' then Inr 15
      else if s = str ''30'' then Inr 30
      else if s = str ''abc''
        then Inl (str ''invalid literal for int() with base 10: '' @ [39, 97, 98, 99, 39])
      else Inl [])"

definition form :: "pystr \<Rightarrow> pystr \<Rightarrow> SettingsDialog" where
  "form timeout interval =
     \<lparr>settings = default_settings, timeout_var = timeout, hidden_var = True,
      refresh_var = True, interval_var = interval, iface_var = str ''Auto'',
      theme_var = str ''dark'', log_var = str ''INFO'', sound_var = False,
      on_save = True, destroyed = False\<rparr>"

section \<open>Masking rule\<close>

text \<open>
  C4. For every stored password \<open>p\<close> the hidden display consists of bullets only and has
  length \<open>min (length p) 12\<close>: \<open>length p\<close> bullets up to twelve code points, twelve
  beyond. A row without a password shows the fixed no-password text, hidden or visible.
\<close>

theorem C4_masked_display:
  "get_password_display (r\<lparr>password := Some p, password_visible := False\<rparr>)
     = replicate (min (length p) 12) bullet
   \<and> length (get_password_display (r\<lparr>password := Some p, password_visible := False\<rparr>))
     = min (length p) 12
   \<and> get_password_display (r\<lparr>password := None, password_visible := False\<rparr>)
     = no_password_text
   \<and> get_password_display (r\<lparr>password := None, password_visible := True\<rparr>)
     = no_password_text"
  by (simp add: get_password_display_def)

section \<open>Dictionaries\<close>

lemma map_of_dict_set: "map_of (dict_set k v d) = (map_of d)(k \<mapsto> v)"
  by (induction d) (auto simp: fun_eq_iff)

lemma keys_dict_set:
  "map fst (dict_set k v d) = (if k \<in> fst ` set d then map fst d else map fst d @ [k])"
  by (induction d) (auto simp: rev_image_eqI)

lemma distinct_dict_set: "distinct (map fst d) \<Longrightarrow> distinct (map fst (dict_set k v d))"
  by (simp add: keys_dict_set)

lemma set_keys_dict_set: "fst ` set (dict_set k v d) = insert k (fst ` set d)"
  by (induction d) (auto simp: rev_image_eqI split: if_splits)

lemma profiles_fold:
  fixes d0 :: pwdict
  shows
  "map_of (foldl (\<lambda>d p. dict_set p None d) d0 ps)
     = (\<lambda>k. if k \<in> set ps then Some None else map_of d0 k)
   \<and> (distinct (map fst d0) \<longrightarrow> distinct (map fst (foldl (\<lambda>d p. dict_set p None d) d0 ps)))
   \<and> fst ` set (foldl (\<lambda>d p. dict_set p None d) d0 ps) = fst ` set d0 \<union> set ps"
proof (induction ps arbitrary: d0)
  case Nil
  show ?case by simp
next
  case (Cons p ps)
  show ?case
    using Cons.IH [of "dict_set p None d0"]
    by (auto simp: map_of_dict_set distinct_dict_set set_keys_dict_set fun_eq_iff)
qed

lemma dict_of_profiles_props:
  "map_of (dict_of_profiles ps) = (\<lambda>k. if k \<in> set ps then Some None else None)"
  "distinct (map fst (dict_of_profiles ps))"
  "fst ` set (dict_of_profiles ps) = set ps"
  using profiles_fold [of "[]" ps] by (simp_all add: dict_of_profiles_def cong: if_cong)


section \<open>Loading the credential list\<close>

lemma load_calls:
  "\<exists>cs. driver_calls (snd (load_passwords (d, u))) = driver_calls u @ cs \<and> length cs \<le> 1"
  by (auto simp: load_passwords_def load_def called_def after_def Let_def
           split: option.splits outcome.splits)

text \<open>
  C5. A load probes the driver in a fixed order and uses one capability only. When the
  driver has the bulk query, the dictionary is the one it returns, whatever else the
  driver offers; otherwise, when it lists profile names, every listed name (and no other)
  is mapped to an absent password; otherwise, or without a driver, the dictionary is
  empty and no driver method runs. In every case at most one driver method is invoked.
\<close>

theorem C5_load_probes_one_capability:
  "(dlg_driver d = Some drv \<and> get_all_saved_passwords drv = Some (Returns m) \<longrightarrow>
      passwords (fst (load_passwords (d, u))) = m
      \<and> driver_calls (snd (load_passwords (d, u)))
          = driver_calls u @ [str ''get_all_saved_passwords''])
   \<and> (dlg_driver d = Some drv \<and> get_all_saved_passwords drv = None
        \<and> get_saved_profiles drv = Some (Returns profiles) \<longrightarrow>
      passwords (fst (load_passwords (d, u))) = dict_of_profiles profiles
      \<and> map_of (passwords (fst (load_passwords (d, u))))
          = (\<lambda>k. if k \<in> set profiles then Some None else None)
      \<and> distinct (map fst (passwords (fst (load_passwords (d, u)))))
      \<and> driver_calls (snd (load_passwords (d, u)))
          = driver_calls u @ [str ''get_saved_profiles''])
   \<and> (dlg_driver d = None
        \<or> (dlg_driver d = Some drv \<and> get_all_saved_passwords drv = None
            \<and> get_saved_profiles drv = None) \<longrightarrow>
      passwords (fst (load_passwords (d, u))) = []
      \<and> driver_calls (snd (load_passwords (d, u))) = driver_calls u)
   \<and> (\<exists>cs. driver_calls (snd (load_passwords (d, u))) = driver_calls u @ cs \<and> length cs \<le> 1)"
proof -
  have a: "dlg_driver d = Some drv \<and> get_all_saved_passwords drv = Some (Returns m) \<longrightarrow>
      passwords (fst (load_passwords (d, u))) = m
      \<and> driver_calls (snd (load_passwords (d, u)))
          = driver_calls u @ [str ''get_all_saved_passwords'']"
    by (simp add: load_passwords_def load_def called_def after_def Let_def)
  have b: "dlg_driver d = Some drv \<and> get_all_saved_passwords drv = None
        \<and> get_saved_profiles drv = Some (Returns profiles) \<longrightarrow>
      passwords (fst (load_passwords (d, u))) = dict_of_profiles profiles
      \<and> driver_calls (snd (load_passwords (d, u)))
          = driver_calls u @ [str ''get_saved_profiles'']"
    by (simp add: load_passwords_def load_def called_def after_def Let_def)
  have c: "dlg_driver d = None
        \<or> (dlg_driver d = Some drv \<and> get_all_saved_passwords drv = None
            \<and> get_saved_profiles drv = None) \<longrightarrow>
      passwords (fst (load_passwords (d, u))) = []
      \<and> driver_calls (snd (load_passwords (d, u))) = driver_calls u"
    by (auto simp: load_passwords_def load_def called_def after_def Let_def)
  show ?thesis
    using a b c load_calls [of d u] by (simp add: dict_of_profiles_props)
qed

text \<open>
  The three branches on concrete drivers: one with both capabilities (the bulk answer
  is used alone), one that only lists names (a repeated name gives one entry), none.
\<close>

theorem C5_load_probes_one_capability_witness:
  "passwords (fst (load_passwords
      (fresh_dialog (Some (bare_driver
         \<lparr>get_all_saved_passwords := Some (Returns [([104], Some [112]), ([99], None)]),
          get_saved_profiles := Some (Returns [[120]])\<rparr>)), blank_ui)))
     = [([104], Some [112]), ([99], None)]
   \<and> passwords (fst (load_passwords
      (fresh_dialog (Some (bare_driver
         \<lparr>get_saved_profiles := Some (Returns [[98], [97], [98]])\<rparr>)), blank_ui)))
     = [([98], None), ([97], None)]
   \<and> passwords (fst (load_passwords (fresh_dialog (Some bare_driver), blank_ui))) = []
   \<and> passwords (fst (load_passwords (fresh_dialog None, blank_ui))) = []"
proof -
  let ?A = "bare_driver
         \<lparr>get_all_saved_passwords := Some (Returns [([104], Some [112]), ([99], None)]),
          get_saved_profiles := Some (Returns [[120]])\<rparr>"
  let ?B = "bare_driver\<lparr>get_saved_profiles := Some (Returns [[98], [97], [98]])\<rparr>"
  have a: "passwords (fst (load_passwords (fresh_dialog (Some ?A), blank_ui)))
             = [([104], Some [112]), ([99], None)]"
    using C5_load_probes_one_capability [where d = "fresh_dialog (Some ?A)" and drv = ?A
            and m = "[([104], Some [112]), ([99], None)]" and u = blank_ui]
    by (simp add: fresh_dialog_def)
  have b: "passwords (fst (load_passwords (fresh_dialog (Some ?B), blank_ui)))
             = dict_of_profiles [[98], [97], [98]]"
    using C5_load_probes_one_capability [where d = "fresh_dialog (Some ?B)" and drv = ?B
            and profiles = "[[98], [97], [98]]" and u = blank_ui]
    by (simp add: fresh_dialog_def bare_driver_def)
  have c: "passwords (fst (load_passwords (fresh_dialog (Some bare_driver), blank_ui))) = []"
    using C5_load_probes_one_capability [where d = "fresh_dialog (Some bare_driver)"
            and drv = bare_driver and u = blank_ui]
    by (simp add: fresh_dialog_def bare_driver_def)
  have d: "passwords (fst (load_passwords (fresh_dialog None, blank_ui))) = []"
    using C5_load_probes_one_capability [where d = "fresh_dialog None" and u = blank_ui]
    by (simp add: fresh_dialog_def)
  have e: "dict_of_profiles [[98], [97], [98]] = [([98], None), ([97], None)]"
    by (simp add: dict_of_profiles_def)
  show ?thesis using a b c d e by simp
qed

text \<open>
  C1. The claim: whether the driver call returns or raises, a dictionary (the empty one
  on a fault) reaches the UI loop and the render step runs. The worker has no handler,
  unlike the connection test, the copy and the export of the same file. With a driver
  whose bulk query raises, the load leaves the loading label in place, assigns no
  dictionary and schedules nothing; running the UI loop afterwards still shows the
  loading label, not the empty-state message.
\<close>

theorem C1_load_fault_never_renders:
  "load_passwords
      (d\<lparr>dlg_driver := Some (drv\<lparr>get_all_saved_passwords := Some (Raises e)\<rparr>)\<rparr>,
       u\<lparr>scheduled := []\<rparr>)
     = (d\<lparr>dlg_driver := Some (drv\<lparr>get_all_saved_passwords := Some (Raises e)\<rparr>),
          scroll_frame := [Label loading_text]\<rparr>,
        called ''get_all_saved_passwords'' (u\<lparr>scheduled := []\<rparr>))
   \<and> scheduled (snd (load_passwords
      (d\<lparr>dlg_driver := Some (drv\<lparr>get_all_saved_passwords := Some (Raises e)\<rparr>)\<rparr>,
       u\<lparr>scheduled := []\<rparr>))) = []
   \<and> scroll_frame (fst (run_scheduled (load_passwords
      (d\<lparr>dlg_driver := Some (drv\<lparr>get_all_saved_passwords := Some (Raises e)\<rparr>)\<rparr>,
       u\<lparr>scheduled := []\<rparr>)))) = [Label loading_text]
   \<and> [Label loading_text] \<noteq> [Label empty_text]"
  by (simp add: load_passwords_def load_def called_def run_scheduled_def Let_def
        loading_text_def empty_text_def str_def)

section \<open>Rendering the rows\<close>

lemma map_insort_key: "map f (insort_key f x ys) = insort (f x) (map f ys)"
  by (induction ys) auto

lemma sort_map_sort_key: "sort (map f xs) = map f (sort_key f xs)"
  by (induction xs) (simp_all add: map_insort_key)

lemma map_filter_lookup:
  assumes "\<And>k v. (k, v) \<in> set L \<Longrightarrow> m k = Some v"
  shows "List.map_filter (\<lambda>k. map_option (g k) (m k)) (map fst L) = map (\<lambda>(k, v). g k v) L"
  using assms
proof (induction L)
  case Nil
  show ?case by (simp add: List.map_filter_simps)
next
  case (Cons a L)
  obtain k v where a: "a = (k, v)" by (cases a)
  have "m k = Some v" using Cons.prems [of k v] a by simp
  moreover have "List.map_filter (\<lambda>k. map_option (g k) (m k)) (map fst L)
                   = map (\<lambda>(k, v). g k v) L"
    using Cons.IH Cons.prems by simp
  ultimately show ?case using a by (simp add: List.map_filter_simps)
qed

lemma display_nonempty:
  assumes "distinct (map fst E)" and "E \<noteq> []"
  shows "scroll_frame (display_passwords (d\<lparr>passwords := E\<rparr>))
         = map (\<lambda>(n, pw). Row (PasswordRow_init n pw (dlg_driver d))) (sort_key fst E)"
proof -
  have "\<And>k v. (k, v) \<in> set (sort_key fst E) \<Longrightarrow> map_of E k = Some v"
    using assms(1) by simp
  then have "List.map_filter
          (\<lambda>k. map_option (\<lambda>pw. Row (PasswordRow_init k pw (dlg_driver d))) (map_of E k))
          (map fst (sort_key fst E))
        = map (\<lambda>(n, pw). Row (PasswordRow_init n pw (dlg_driver d))) (sort_key fst E)"
    by (rule map_filter_lookup)
  then show ?thesis
    using assms(2) by (simp add: display_passwords_def sort_map_sort_key)
qed

lemma rows_of_map_Row: "rows_of (map (\<lambda>(n, pw). Row (f n pw)) L) = map (\<lambda>(n, pw). f n pw) L"
  by (induction L) (auto simp: rows_of_def)

lemma init_fields:
  "profile_name (PasswordRow_init n pw drv) = n"
  "password (PasswordRow_init n pw drv) = pw"
  "password_visible (PasswordRow_init n pw drv) = False"
  "status_of (PasswordRow_init n pw drv) = Some Idle"
  by (simp_all add: PasswordRow_init_def status_of_def Let_def)

text \<open>
  C6. For every dictionary \<open>E\<close> (distinct names), rendering an empty \<open>E\<close> shows exactly
  the empty-state label and no row; rendering a non-empty \<open>E\<close> shows rows only, one per
  entry with that entry's name and password, in ascending order of the names by code
  point (strictly, as the names are distinct), and every row starts with the password
  hidden and the test status Idle.
\<close>

theorem C6_render_sorted_rows:
  assumes "distinct (map fst E)"
  shows "(E = [] \<longrightarrow> scroll_frame (display_passwords (d\<lparr>passwords := E\<rparr>)) = [Label empty_text])
    \<and> (E \<noteq> [] \<longrightarrow>
         scroll_frame (display_passwords (d\<lparr>passwords := E\<rparr>))
           = map Row (rows_of (scroll_frame (display_passwords (d\<lparr>passwords := E\<rparr>)))))
    \<and> map (\<lambda>r. (profile_name r, password r))
          (rows_of (scroll_frame (display_passwords (d\<lparr>passwords := E\<rparr>))))
        = sort_key fst E
    \<and> length (rows_of (scroll_frame (display_passwords (d\<lparr>passwords := E\<rparr>)))) = length E
    \<and> sorted (map profile_name (rows_of (scroll_frame (display_passwords (d\<lparr>passwords := E\<rparr>)))))
    \<and> distinct (map profile_name (rows_of (scroll_frame (display_passwords (d\<lparr>passwords := E\<rparr>)))))
    \<and> (\<forall>r \<in> set (rows_of (scroll_frame (display_passwords (d\<lparr>passwords := E\<rparr>)))).
          \<not> password_visible r \<and> status_of r = Some Idle)"
proof (cases "E = []")
  case True
  then show ?thesis by (simp add: display_passwords_def rows_of_def)
next
  case False
  let ?rows = "map (\<lambda>(n, pw). PasswordRow_init n pw (dlg_driver d)) (sort_key fst E)"
  have sf: "scroll_frame (display_passwords (d\<lparr>passwords := E\<rparr>))
         = map (\<lambda>(n, pw). Row (PasswordRow_init n pw (dlg_driver d))) (sort_key fst E)"
    using assms False by (rule display_nonempty)
  have rows: "rows_of (scroll_frame (display_passwords (d\<lparr>passwords := E\<rparr>))) = ?rows"
    unfolding sf by (rule rows_of_map_Row)
  have c2: "scroll_frame (display_passwords (d\<lparr>passwords := E\<rparr>)) = map Row ?rows"
    unfolding sf by (simp add: case_prod_unfold)
  have c3: "map (\<lambda>r. (profile_name r, password r)) ?rows = sort_key fst E"
    by (simp add: comp_def case_prod_unfold init_fields)
  have names: "map profile_name ?rows = map fst (sort_key fst E)"
    by (simp add: comp_def case_prod_unfold init_fields)
  have c5: "sorted (map profile_name ?rows)"
    unfolding names by (rule sorted_sort_key)
  have c6: "distinct (map profile_name ?rows)"
    unfolding names using assms by (simp add: sort_map_sort_key [symmetric])
  have c7: "\<forall>r \<in> set ?rows. \<not> password_visible r \<and> status_of r = Some Idle"
    by (auto simp: init_fields)
  show ?thesis
    unfolding rows using False c2 c3 c5 c6 c7 by simp
qed

text \<open>
  The names \<open>b\<close>, \<open>B\<close>, \<open>a\<close> are shown as \<open>B\<close>, \<open>a\<close>, \<open>b\<close>: upper case sorts before
  lower case. The empty dictionary gives the empty-state label.
\<close>

theorem C6_render_sorted_rows_witness:
  "distinct (map fst [([98], Some [112, 119]), ([66], None), ([97::nat], Some [])])
   \<and> map (\<lambda>r. (profile_name r, password r))
        (rows_of (scroll_frame (display_passwords
           ((fresh_dialog None)\<lparr>passwords := [([98], Some [112, 119]), ([66], None), ([97], Some [])]\<rparr>))))
      = [([66], None), ([97], Some []), ([98], Some [112, 119])]
   \<and> distinct (map fst ([] :: pwdict))
   \<and> scroll_frame (display_passwords ((fresh_dialog None)\<lparr>passwords := []\<rparr>))
      = [Label empty_text]"
proof -
  let ?E = "[([98], Some [112, 119]), ([66], None), ([97], Some [])] :: pwdict"
  have dist: "distinct (map fst ?E)" by simp
  have a: "map (\<lambda>r. (profile_name r, password r))
        (rows_of (scroll_frame (display_passwords ((fresh_dialog None)\<lparr>passwords := ?E\<rparr>))))
      = sort_key fst ?E"
    using C6_render_sorted_rows [OF dist, of "fresh_dialog None"] by blast
  have s: "sort_key fst ?E = [([66], None), ([97], Some []), ([98], Some [112, 119])]"
    by simp
  have dist0: "distinct (map fst ([] :: pwdict))" by simp
  have b: "scroll_frame (display_passwords ((fresh_dialog None)\<lparr>passwords := []\<rparr>))
      = [Label empty_text]"
    using C6_render_sorted_rows [OF dist0, of "fresh_dialog None"] by blast
  show ?thesis using dist a s b by simp
qed

section \<open>Copying a password\<close>

text \<open>
  C7, as the code has it. Without a stored password, and also with a stored password
  that is the empty string, the copy action shows the informational notice and changes
  nothing else: the clipboard is not touched. With a stored password \<open>p\<close> that is not
  empty, and clipboard calls that do not fault, the clipboard holds exactly \<open>p\<close>
  afterwards and no prompt is shown.
\<close>

theorem C7_copy_password:
  "(password r = None \<or> password r = Some [] \<longrightarrow>
      copy_password w (r, u)
        = (r, show_message (str ''Info'') (str ''No password to copy'') (str ''info'') u)
      \<and> clipboard (snd (copy_password w (r, u))) = clipboard u)
   \<and> (password r = Some p \<and> p \<noteq> [] \<and> clipboard_clear w = None \<and> clipboard_append w = None \<longrightarrow>
      clipboard (snd (copy_password w (r, u))) = p
      \<and> shown (snd (copy_password w (r, u))) = shown u)"
  by (auto simp: copy_password_def show_message_def after_def Let_def)

theorem C7_copy_password_witness:
  "clipboard (snd (copy_password quiet_world
        (PasswordRow_init (str ''cafe'') (Some (str ''hunter2'')) None,
         blank_ui\<lparr>clipboard := str ''old''\<rparr>))) = str ''hunter2''
   \<and> copy_password quiet_world (PasswordRow_init (str ''cafe'') None None, blank_ui)
      = (PasswordRow_init (str ''cafe'') None None,
         show_message (str ''Info'') (str ''No password to copy'') (str ''info'') blank_ui)"
  using C7_copy_password [where r = "PasswordRow_init (str ''cafe'') (Some (str ''hunter2'')) None"
                    and p = "str ''hunter2''" and w = quiet_world
                    and u = "blank_ui\<lparr>clipboard := str ''old''\<rparr>"]
        C7_copy_password [where r = "PasswordRow_init (str ''cafe'') None None" and p = "[]"
                    and w = quiet_world and u = blank_ui]
  by (simp add: PasswordRow_init_def Let_def quiet_world_def str_def)

text \<open>
  The claim as written fails for the empty string: a row whose stored password is the
  empty string, copied while the clipboard holds \<open>old\<close>, leaves \<open>old\<close> on the clipboard
  (not the empty string) and shows the notice.
\<close>

theorem C7_empty_password_not_copied:
  "password (PasswordRow_init (str ''cafe'') (Some []) None) = Some []
   \<and> clipboard (snd (copy_password quiet_world
        (PasswordRow_init (str ''cafe'') (Some []) None, blank_ui\<lparr>clipboard := str ''old''\<rparr>)))
       = str ''old''
   \<and> str ''old'' \<noteq> []
   \<and> shown (snd (copy_password quiet_world
        (PasswordRow_init (str ''cafe'') (Some []) None, blank_ui\<lparr>clipboard := str ''old''\<rparr>)))
       = [(str ''Info'', str ''No password to copy'', str ''info'')]"
  by (simp add: copy_password_def show_message_def PasswordRow_init_def Let_def blank_ui_def str_def)

section \<open>The connection test\<close>

lemma msgs_differ: "msg_verified n \<noteq> msg_unverified"
  by (simp add: msg_verified_def msg_unverified_def ok_icon_def warn_icon_def)

text \<open>
  C8. When \<open>connect\<close> returns true for the profile name, the settling wait passes and the
  driver has the current-connection query: a record whose identifier equals the name
  gives the verified-success message; no record, or a record with another identifier,
  gives the unverified message. The two texts differ for every name, and both are
  handed over with \<open>success = True\<close>, so the unverified result is shown with the success
  icon in an \<open>info\<close> prompt.
\<close>

theorem C8_verified_distinct_from_unverified:
  assumes "row_driver r = Some d" and "connect d = Some conn"
    and "conn (profile_name r) = Returns True" and "sleep w = None"
    and "get_current_connection d = Some (Returns current)"
  shows "(current = Some c \<and> ssid c = profile_name r \<longrightarrow>
            scheduled (snd (test_connection w (r, u)))
              = scheduled u @ [(0, Show_test_result True (msg_verified (profile_name r)))])
       \<and> (current = None \<or> (current = Some c \<and> ssid c \<noteq> profile_name r) \<longrightarrow>
            scheduled (snd (test_connection w (r, u)))
              = scheduled u @ [(0, Show_test_result True msg_unverified)])
       \<and> msg_verified (profile_name r) \<noteq> msg_unverified
       \<and> test_btn (fst (show_test_result True msg_unverified (r, u))) = ok_icon
       \<and> shown (snd (show_test_result True msg_unverified (r, u)))
           = shown u @ [(str ''Connection Test'', msg_unverified, str ''info'')]"
  using assms
  by (auto simp: test_connection_def do_test_def called_def after_def show_test_result_def
        show_message_def Let_def msgs_differ)

lemma row_driver_init: "row_driver (PasswordRow_init n pw drv) = drv"
  by (simp add: PasswordRow_init_def Let_def)

text \<open>
  A driver that connects and reports the network \<open>home\<close> as active: testing the profile
  \<open>home\<close> is verified, testing the profile \<open>cafe\<close> is not.
\<close>

theorem C8_verified_distinct_from_unverified_witness:
  "scheduled (snd (test_connection quiet_world
      (PasswordRow_init (str ''home'') None
         (Some (bare_driver\<lparr>connect := Some (\<lambda>n. Returns True),
             get_current_connection := Some (Returns (Some \<lparr>ssid = str ''home''\<rparr>))\<rparr>)),
       blank_ui)))
     = [(0, Show_test_result True (msg_verified (str ''home'')))]
   \<and> scheduled (snd (test_connection quiet_world
      (PasswordRow_init (str ''cafe'') None
         (Some (bare_driver\<lparr>connect := Some (\<lambda>n. Returns True),
             get_current_connection := Some (Returns (Some \<lparr>ssid = str ''home''\<rparr>))\<rparr>)),
       blank_ui)))
     = [(0, Show_test_result True msg_unverified)]"
proof -
  let ?d = "bare_driver\<lparr>connect := Some (\<lambda>n. Returns True),
             get_current_connection := Some (Returns (Some \<lparr>ssid = str ''home''\<rparr>))\<rparr>"
  let ?home = "PasswordRow_init (str ''home'') None (Some ?d)"
  let ?cafe = "PasswordRow_init (str ''cafe'') None (Some ?d)"
  have h1: "row_driver ?home = Some ?d" "row_driver ?cafe = Some ?d"
    by (simp_all add: row_driver_init)
  have h2: "connect ?d = Some (\<lambda>n. Returns True)" by simp
  have h3: "(\<lambda>n. Returns True) (profile_name ?home) = Returns True"
           "(\<lambda>n. Returns True) (profile_name ?cafe) = Returns True"
    by simp_all
  have h4: "sleep quiet_world = None" by (simp add: quiet_world_def)
  have h5: "get_current_connection ?d = Some (Returns (Some \<lparr>ssid = str ''home''\<rparr>))"
    by simp
  have n1: "ssid \<lparr>ssid = str ''home''\<rparr> = profile_name ?home"
    by (simp add: init_fields)
  have n2: "ssid \<lparr>ssid = str ''home''\<rparr> \<noteq> profile_name ?cafe"
    by (simp add: init_fields str_def)
  have a: "scheduled (snd (test_connection quiet_world (?home, blank_ui)))
             = scheduled blank_ui @ [(0, Show_test_result True (msg_verified (profile_name ?home)))]"
    using C8_verified_distinct_from_unverified [OF h1(1) h2 h3(1) h4 h5,
            where c = "\<lparr>ssid = str ''home''\<rparr>" and u = blank_ui] n1
    by blast
  have b: "scheduled (snd (test_connection quiet_world (?cafe, blank_ui)))
             = scheduled blank_ui @ [(0, Show_test_result True msg_unverified)]"
    using C8_verified_distinct_from_unverified [OF h1(2) h2 h3(2) h4 h5,
            where c = "\<lparr>ssid = str ''home''\<rparr>" and u = blank_ui] n2
    by blast
  show ?thesis
    using a b by (simp add: init_fields blank_ui_def)
qed

text \<open>
  C2. The claim: a fault anywhere in the test sequence is reported as a failure whose
  message holds the fault's description. The handler sets the message only; \<open>success\<close>
  keeps the value \<open>connect\<close> returned. With a driver whose \<open>connect\<close> returns true and
  whose current-connection query raises \<open>e\<close>, the result handed to the UI loop is
  \<open>success = True\<close> with the error message, and showing it puts the success icon on the
  button and opens an \<open>info\<close> prompt: the row's status is Succeeded, not Failed.
\<close>

theorem C2_fault_after_connect_reported_success:
  "scheduled (snd (test_connection (w\<lparr>sleep := None\<rparr>)
      (r\<lparr>row_driver := Some (d\<lparr>connect := Some (\<lambda>n. Returns True),
                                 get_current_connection := Some (Raises e)\<rparr>)\<rparr>, u)))
     = scheduled u @ [(0, Show_test_result True (msg_error e))]
   \<and> test_btn (fst (show_test_result True (msg_error e) (r, u))) = ok_icon
   \<and> shown (snd (show_test_result True (msg_error e) (r, u)))
       = shown u @ [(str ''Connection Test'', msg_error e, str ''info'')]
   \<and> status_of (fst (show_test_result True (msg_error e) (r, u))) = Some Succeeded"
  by (simp add: test_connection_def do_test_def called_def after_def show_test_result_def
        show_message_def Let_def status_of_def ok_icon_def link_icon_def hourglass_def)

section \<open>Settings\<close>







lemma form_fields:
  "timeout_var (form a b) = a" "interval_var (form a b) = b" "destroyed (form a b) = False"
  by (simp_all add: form_def)

lemma int_on_examples_abc:
  "int_on_examples (str ''abc'')
     = Inl (str ''invalid literal for int() with base 10: '' @ [39, 97, 98, 99, 39])"
  by (simp add: int_on_examples_def str_def)

lemma int_on_examples_15: "int_on_examples (str ''15'') = Inr 15"
  by (simp add: int_on_examples_def)

lemma msg_eq:
  "str ''Invalid value: '' @ str ''invalid literal for int() with base 10: '' @ q
     = str ''Invalid value: invalid literal for int() with base 10: '' @ q"
  by (simp add: str_def)

text \<open>
  C3, as the code has it. When an integer field holds a non-numeric string, \<open>int\<close>
  raises \<open>ValueError\<close> on it. When the scan-timeout field is the one, or the scan timeout
  converts and the refresh-interval field is the one, the save is abandoned: the
  settings file, the printed lines, the appearance mode and the completion callback are
  untouched and the dialog stays open. The only effect outside the dialog is one error
  prompt whose text is \<open>Invalid value: \<close> followed by the description of the fault that
  the conversion raised.
\<close>

theorem C3_invalid_integer_aborts_save:
  "(int_of (timeout_var d) = Inl e \<longrightarrow>
      apply_settings int_of w (d, u)
        = (d, show_message (str ''Error'') (str ''Invalid value: '' @ e) (str ''error'') u))
   \<and> (int_of (timeout_var d) = Inr t \<and> int_of (interval_var d) = Inl e \<longrightarrow>
      snd (apply_settings int_of w (d, u))
        = show_message (str ''Error'') (str ''Invalid value: '' @ e) (str ''error'') u
      \<and> destroyed (fst (apply_settings int_of w (d, u))) = destroyed d)
   \<and> (int_of (timeout_var d) = Inl e
        \<or> (int_of (timeout_var d) = Inr t \<and> int_of (interval_var d) = Inl e) \<longrightarrow>
      settings_json (snd (apply_settings int_of w (d, u))) = settings_json u
      \<and> printed (snd (apply_settings int_of w (d, u))) = printed u
      \<and> appearance_mode (snd (apply_settings int_of w (d, u))) = appearance_mode u
      \<and> on_save_calls (snd (apply_settings int_of w (d, u))) = on_save_calls u
      \<and> destroyed (fst (apply_settings int_of w (d, u))) = destroyed d
      \<and> shown (snd (apply_settings int_of w (d, u)))
          = shown u @ [(str ''Error'', str ''Invalid value: '' @ e, str ''error'')])"
  by (auto simp: apply_settings_def show_message_def Let_def)

text \<open>
  With \<open>abc\<close> typed as the scan timeout, and with \<open>abc\<close> typed as the refresh interval
  after a valid scan timeout, a settings file that sets the theme is left as it is and
  the dialog is not closed.
\<close>

theorem C3_invalid_integer_aborts_save_witness:
  "int_on_examples (timeout_var (form (str ''abc'') (str ''30'')))
      = Inl (str ''invalid literal for int() with base 10: '' @ [39, 97, 98, 99, 39])
   \<and> settings_json (snd (apply_settings int_on_examples quiet_world
        (form (str ''abc'') (str ''30''), blank_ui\<lparr>settings_json := Holds (JObj [(str ''theme'', JStr (str ''light''))])\<rparr>)))
      = Holds (JObj [(str ''theme'', JStr (str ''light''))])
   \<and> int_on_examples (timeout_var (form (str ''15'') (str ''abc''))) = Inr 15
   \<and> int_on_examples (interval_var (form (str ''15'') (str ''abc'')))
      = Inl (str ''invalid literal for int() with base 10: '' @ [39, 97, 98, 99, 39])
   \<and> settings_json (snd (apply_settings int_on_examples quiet_world
        (form (str ''15'') (str ''abc''), blank_ui\<lparr>settings_json := Holds (JObj [(str ''theme'', JStr (str ''light''))])\<rparr>)))
      = Holds (JObj [(str ''theme'', JStr (str ''light''))])
   \<and> \<not> destroyed (fst (apply_settings int_on_examples quiet_world
        (form (str ''15'') (str ''abc''), blank_ui\<lparr>settings_json := Holds (JObj [(str ''theme'', JStr (str ''light''))])\<rparr>)))"
proof -
  let ?e = "str ''invalid literal for int() with base 10: '' @ [39, 97, 98, 99, 39]"
  let ?u = "blank_ui\<lparr>settings_json := Holds (JObj [(str ''theme'', JStr (str ''light''))])\<rparr>"
  have h1: "int_on_examples (timeout_var (form (str ''abc'') (str ''30''))) = Inl ?e"
    by (simp add: form_fields int_on_examples_abc)
  have h2: "int_on_examples (timeout_var (form (str ''15'') (str ''abc''))) = Inr 15"
    by (simp add: form_fields int_on_examples_15)
  have h3: "int_on_examples (interval_var (form (str ''15'') (str ''abc''))) = Inl ?e"
    by (simp add: form_fields int_on_examples_abc)
  have a: "settings_json (snd (apply_settings int_on_examples quiet_world
             (form (str ''abc'') (str ''30''), ?u))) = settings_json ?u"
    using h1 C3_invalid_integer_aborts_save
               [where int_of = int_on_examples and d = "form (str ''abc'') (str ''30'')"
                  and e = ?e and t = 15 and w = quiet_world and u = ?u]
    by blast
  have b: "settings_json (snd (apply_settings int_on_examples quiet_world
             (form (str ''15'') (str ''abc''), ?u))) = settings_json ?u
           \<and> destroyed (fst (apply_settings int_on_examples quiet_world
             (form (str ''15'') (str ''abc''), ?u))) = destroyed (form (str ''15'') (str ''abc''))"
    using h2 h3 C3_invalid_integer_aborts_save
               [where int_of = int_on_examples and d = "form (str ''15'') (str ''abc'')"
                  and e = ?e and t = 15 and w = quiet_world and u = ?u]
    by blast
  show ?thesis
    using h1 h2 h3 a b by (simp add: form_fields)
qed

text \<open>
  The claim as written asks for an error that names the offending field. The prompt for
  \<open>abc\<close> in the scan-timeout field reads
  \<open>Invalid value: invalid literal for int() with base 10: 'abc'\<close>; the prompt for
  \<open>abc\<close> in the refresh-interval field is the same prompt; and the text contains
  neither \<open>timeout\<close> nor \<open>Timeout\<close>.
\<close>

theorem C3_error_does_not_name_field:
  "shown (snd (apply_settings int_on_examples quiet_world (form (str ''abc'') (str ''30''), blank_ui)))
     = [(str ''Error'',
         str ''Invalid value: invalid literal for int() with base 10: '' @ [39, 97, 98, 99, 39],
         str ''error'')]
   \<and> shown (snd (apply_settings int_on_examples quiet_world (form (str ''15'') (str ''abc''), blank_ui)))
     = shown (snd (apply_settings int_on_examples quiet_world (form (str ''abc'') (str ''30''), blank_ui)))
   \<and> \<not> mentions (str ''timeout'')
        (str ''Invalid value: invalid literal for int() with base 10: '' @ [39, 97, 98, 99, 39])
   \<and> \<not> mentions (str ''Timeout'')
        (str ''Invalid value: invalid literal for int() with base 10: '' @ [39, 97, 98, 99, 39])"
proof -
  have a: "shown (snd (apply_settings int_on_examples quiet_world (form (str ''abc'') (str ''30''), blank_ui)))
     = [(str ''Error'',
         str ''Invalid value: invalid literal for int() with base 10: '' @ [39, 97, 98, 99, 39],
         str ''error'')]"
    by (simp add: apply_settings_def form_fields int_on_examples_abc show_message_def blank_ui_def msg_eq)
  have b: "shown (snd (apply_settings int_on_examples quiet_world (form (str ''15'') (str ''abc''), blank_ui)))
     = [(str ''Error'',
         str ''Invalid value: invalid literal for int() with base 10: '' @ [39, 97, 98, 99, 39],
         str ''error'')]"
    by (simp add: apply_settings_def form_fields int_on_examples_abc int_on_examples_15 show_message_def
          blank_ui_def Let_def msg_eq)
  have c: "\<not> mentions (str ''timeout'')
        (str ''Invalid value: invalid literal for int() with base 10: '' @ [39, 97, 98, 99, 39])"
    by (simp add: mentions_def str_def upt_rec)
  have d: "\<not> mentions (str ''Timeout'')
        (str ''Invalid value: invalid literal for int() with base 10: '' @ [39, 97, 98, 99, 39])"
    by (simp add: mentions_def str_def upt_rec)
  show ?thesis using a b c d by simp
qed

section \<open>The empty-string password\<close>

text \<open>
  C10. A stored password that is the empty string is handled in two ways. The copy
  action treats it like no password: the notice is shown, the environment is left as
  for a row without a password, the clipboard keeps its contents. The export writes the
  literal \<open>(no password)\<close> for it, the same block as for an absent password. The row
  display treats it as a password: hidden, it is a mask of zero bullets, the empty text,
  which is not the no-password label shown for an absent password.
\<close>

theorem C10_empty_password_inconsistent:
  "copy_password w (r\<lparr>password := Some []\<rparr>, u)
     = (r\<lparr>password := Some []\<rparr>,
        show_message (str ''Info'') (str ''No password to copy'') (str ''info'') u)
   \<and> snd (copy_password w (r\<lparr>password := Some []\<rparr>, u))
     = snd (copy_password w (r\<lparr>password := None\<rparr>, u))
   \<and> clipboard (snd (copy_password w (r\<lparr>password := Some []\<rparr>, u))) = clipboard u
   \<and> export_block (n, Some [])
     = str ''Network: '' @ n @ [10] @ str ''Password: (no password)'' @ [10]
       @ replicate 30 45 @ [10]
   \<and> export_block (n, Some []) = export_block (n, None)
   \<and> files (snd (export_passwords
              (w\<lparr>asksaveasfilename := Returns (c # path), open_w := None\<rparr>)
              (d\<lparr>passwords := [(n, Some [])]\<rparr>, u))) (c # path)
     = Some (str ''WiFi Tester Pro - Saved Passwords Export'' @ [10]
             @ replicate 50 61 @ [10, 10]
             @ str ''Network: '' @ n @ [10] @ str ''Password: (no password)'' @ [10]
             @ replicate 30 45 @ [10])
   \<and> get_password_display (r\<lparr>password := Some [], password_visible := False\<rparr>) = []
   \<and> get_password_display (r\<lparr>password := None, password_visible := False\<rparr>)
     = no_password_text
   \<and> get_password_display (r\<lparr>password := Some [], password_visible := False\<rparr>)
     \<noteq> get_password_display (r\<lparr>password := None, password_visible := False\<rparr>)"
  by (simp add: copy_password_def export_block_def export_passwords_def export_text_def
        show_message_def get_password_display_def no_password_text_def str_def)

end
